theory Spec2Isabelle
  imports Complex_Main
begin

section \<open>Pressure trend calculator: the model\<close>

text \<open>
  The program (\<^verbatim>\<open>program.py\<close>) consists of the classifier \<^verbatim>\<open>determine_trend\<close> and the
  calculator \<^verbatim>\<open>calculate_pressure_trend\<close>; the rest is console input and output.

  Numbers: the Python code computes with floats. They are modelled as \<^typ>\<open>real\<close>, so every
  arithmetic operation below is exact; the rounding error of the individual float operations,
  NaN and the infinities are outside the model. The literals of the source are read as the
  decimal fractions they denote. Direction names, unit selectors and symbols are strings,
  as in the source. The returned dict is a record with the keys of the dict as fields.
\<close>

subsection \<open>Python primitives used by the program\<close>

datatype py_error = IndexError

text \<open>\<^verbatim>\<open>xs[i]\<close> for a literal index \<open>i \<ge> 0\<close>: raises IndexError out of range.\<close>

definition getitem :: "'a list \<Rightarrow> nat \<Rightarrow> py_error + 'a" where
  "getitem xs i = (if i < length xs then Inr (xs ! i) else Inl IndexError)"

text \<open>Rounding to the nearest integer, ties to the even neighbour.\<close>

definition round_half_even :: "real \<Rightarrow> int" where
  "round_half_even y =
     (let f = \<lfloor>y\<rfloor>; d = y - of_int f
      in if d < 1 / 2 then f
         else if d > 1 / 2 then f + 1
         else if even f then f else f + 1)"

text \<open>\<^verbatim>\<open>round(x, 1)\<close>: the nearest multiple of one tenth, ties to even.\<close>

definition py_round1 :: "real \<Rightarrow> real" where
  "py_round1 x = of_int (round_half_even (x * 10)) / 10"

text \<open>\<^verbatim>\<open>int(x)\<close> on a float: truncation towards zero.\<close>

definition py_int :: "real \<Rightarrow> int" where
  "py_int x = (if 0 \<le> x then \<lfloor>x\<rfloor> else \<lceil>x\<rceil>)"

subsection \<open>\<^verbatim>\<open>determine_trend\<close> (lines 7 to 19)\<close>

definition determine_trend :: "real \<Rightarrow> real \<Rightarrow> real \<Rightarrow> string" where
  "determine_trend pressure1 pressure2 threshold =
     (let diff = pressure2 - pressure1
      in if diff > threshold then ''Rising''
         else if diff < - threshold then ''Falling''
         else ''Steady'')"

text \<open>The default value of the parameter \<^verbatim>\<open>threshold\<close>.\<close>

definition default_threshold :: real where
  "default_threshold = 0.01"

subsection \<open>\<^verbatim>\<open>calculate_pressure_trend\<close> (lines 21 to 153)\<close>

record trend_result =
  current_pressure_display :: real
  current_pressure_mb :: real
  station_model_pressure :: int
  pressure_change_display :: real
  pressure_change_mb :: real
  trend_value :: int
  overall_trend :: string
  tendency_description :: string
  tendency_symbol :: string
  unit :: string
  unit_label :: string

text \<open>Conversion factors (lines 36 to 38).\<close>

definition INHG_TO_MB :: real where
  "INHG_TO_MB = 33.8639"

definition HPA_TO_INHG :: real where
  "HPA_TO_INHG = 0.02953"

definition KPA_TO_INHG :: real where
  "KPA_TO_INHG = 0.2953"

text \<open>Lines 41 to 52: the current pressure and the list of past pressures in inHg.\<close>

definition convert_to_inhg :: "string \<Rightarrow> real \<Rightarrow> real list \<Rightarrow> real \<times> real list" where
  "convert_to_inhg u current_pressure past_pressures =
     (if u = ''hPa'' then
        (current_pressure * HPA_TO_INHG, map (\<lambda>p. p * HPA_TO_INHG) past_pressures)
      else if u = ''kPa'' then
        (current_pressure * KPA_TO_INHG, map (\<lambda>p. p * KPA_TO_INHG) past_pressures)
      else if u = ''custom'' then
        (current_pressure, map (\<lambda>p. p * HPA_TO_INHG) past_pressures)
      else
        (current_pressure, past_pressures))"

text \<open>Lines 67 to 72: the overall direction, from the rounded change in mb.\<close>

definition overall_trend_of :: "real \<Rightarrow> string" where
  "overall_trend_of change_mb =
     (if change_mb > 0 then ''Rising''
      else if change_mb < 0 then ''Falling''
      else ''Steady'')"

text \<open>
  Lines 82 to 97: displayed current pressure, displayed change and unit label, from the
  unit, the rounded current pressure in mb, the rounded change in mb and the current
  pressure in inHg.
\<close>

definition display_values :: "string \<Rightarrow> real \<Rightarrow> real \<Rightarrow> real \<Rightarrow> real \<times> real \<times> string" where
  "display_values u current_pressure_mb_rounded change_mb current_pressure_inhg =
     (if u = ''hPa'' then
        (current_pressure_mb_rounded, change_mb, ''hPa'')
      else if u = ''kPa'' then
        (current_pressure_mb_rounded / 10, change_mb / 10, ''kPa'')
      else if u = ''custom'' then
        (current_pressure_inhg, change_mb, ''hPa (change), inHg (current)'')
      else
        (current_pressure_inhg, change_mb / INHG_TO_MB, ''inHg''))"

text \<open>
  Lines 105 to 113: the direction of the first period, from the two segment directions and
  the inHg values three hours and one hour ago.
\<close>

definition first_period_trend_of :: "string \<Rightarrow> string \<Rightarrow> real \<Rightarrow> real \<Rightarrow> string" where
  "first_period_trend_of trend_3h_to_2h trend_2h_to_1h p3h p1h =
     (if trend_3h_to_2h = trend_2h_to_1h then trend_3h_to_2h
      else if trend_3h_to_2h = ''Steady'' \<and> trend_2h_to_1h \<noteq> ''Steady'' then trend_2h_to_1h
      else if trend_2h_to_1h = ''Steady'' \<and> trend_3h_to_2h \<noteq> ''Steady'' then trend_3h_to_2h
      else determine_trend p3h p1h default_threshold)"

text \<open>
  Lines 121 to 139: the symbol starts as the empty string and is assigned by the first
  branch of the chain that matches; the chain has no final \<^verbatim>\<open>else\<close>.
\<close>

definition tendency_symbol_of :: "string \<Rightarrow> string \<Rightarrow> string" where
  "tendency_symbol_of first_period_trend second_period_trend =
     (if first_period_trend = ''Rising'' \<and> second_period_trend = ''Falling'' then ''+/''
      else if first_period_trend = ''Falling'' \<and> second_period_trend = ''Rising'' then ''-+''
      else if first_period_trend = ''Rising'' \<and> second_period_trend = ''Steady'' then ''+=''
      else if first_period_trend = ''Falling'' \<and> second_period_trend = ''Steady'' then ''-=''
      else if first_period_trend = ''Rising'' \<and> second_period_trend = ''Rising'' then ''+''
      else if first_period_trend = ''Falling'' \<and> second_period_trend = ''Falling'' then ''-''
      else if first_period_trend = ''Steady'' \<and> second_period_trend = ''Rising'' then ''=+''
      else if first_period_trend = ''Steady'' \<and> second_period_trend = ''Falling'' then ''=-''
      else if first_period_trend = ''Steady'' \<and> second_period_trend = ''Steady'' then ''=''
      else '''')"

text \<open>
  The function itself. The three reads \<^verbatim>\<open>past_pressures_inhg[0]\<close>, \<^verbatim>\<open>[1]\<close>, \<^verbatim>\<open>[2]\<close> of lines
  56 to 58 come first and raise IndexError on a list that is too short; the later reads
  of the same indices (lines 100 to 113) then succeed.
\<close>

definition calculate_pressure_trend ::
    "real \<Rightarrow> real list \<Rightarrow> string \<Rightarrow> py_error + trend_result" where
  "calculate_pressure_trend current_pressure past_pressures u =
     (let (current_pressure_inhg, past_pressures_inhg) =
            convert_to_inhg u current_pressure past_pressures;
          current_pressure_mb = current_pressure_inhg * INHG_TO_MB
      in case getitem past_pressures_inhg 0 of Inl e \<Rightarrow> Inl e | Inr p1h \<Rightarrow>
        (case getitem past_pressures_inhg 1 of Inl e \<Rightarrow> Inl e | Inr p2h \<Rightarrow>
        (case getitem past_pressures_inhg 2 of Inl e \<Rightarrow> Inl e | Inr p3h \<Rightarrow>
         (let pressure_1h_ago_mb = p1h * INHG_TO_MB;
              pressure_2h_ago_mb = p2h * INHG_TO_MB;
              pressure_3h_ago_mb = p3h * INHG_TO_MB;
              change_mb = py_round1 (current_pressure_mb - pressure_3h_ago_mb);
              overall = overall_trend_of change_mb;
              trend_val = py_int (\<bar>change_mb\<bar> * 10);
              current_pressure_mb_rounded = py_round1 current_pressure_mb;
              station = py_int (current_pressure_mb_rounded * 10) mod 1000;
              (display_current_pressure, display_pressure_change, label) =
                 display_values u current_pressure_mb_rounded change_mb current_pressure_inhg;
              trend_3h_to_2h = determine_trend p3h p2h default_threshold;
              trend_2h_to_1h = determine_trend p2h p1h default_threshold;
              trend_1h_to_now = determine_trend p1h current_pressure_inhg default_threshold;
              first_period_trend =
                 first_period_trend_of trend_3h_to_2h trend_2h_to_1h p3h p1h;
              second_period_trend = trend_1h_to_now
          in Inr \<lparr> current_pressure_display = display_current_pressure,
                   current_pressure_mb = current_pressure_mb_rounded,
                   station_model_pressure = station,
                   pressure_change_display = display_pressure_change,
                   pressure_change_mb = change_mb,
                   trend_value = trend_val,
                   overall_trend = overall,
                   tendency_description = first_period_trend @ '' then '' @ second_period_trend,
                   tendency_symbol = tendency_symbol_of first_period_trend second_period_trend,
                   unit = u,
                   unit_label = label \<rparr>))))"

section \<open>Basic facts about the primitives\<close>

lemma round_half_even_of_int: "round_half_even (of_int k) = k"
  by (simp add: round_half_even_def)

lemma py_round1_times10: "py_round1 x * 10 = of_int (round_half_even (x * 10))"
  by (simp add: py_round1_def)

lemma py_int_of_int: "py_int (of_int k) = k"
  by (simp add: py_int_def)

lemma round_half_even_bounds: "\<bar>of_int (round_half_even y) - y\<bar> \<le> 1 / 2"
  unfolding round_half_even_def Let_def
  by (auto simp: abs_le_iff)

lemma py_round1_error: "\<bar>py_round1 x - x\<bar> \<le> 0.05"
proof -
  have "\<bar>of_int (round_half_even (x * 10)) - x * 10\<bar> \<le> 1 / 2"
    by (rule round_half_even_bounds)
  then show ?thesis
    by (simp add: py_round1_def abs_le_iff field_simps)
qed

text \<open>Ten times a rounded value is an integer, so truncation and floor leave it alone.\<close>

lemma py_int_abs_round1: "py_int (\<bar>py_round1 x\<bar> * 10) = \<bar>round_half_even (x * 10)\<bar>"
proof -
  have "\<bar>py_round1 x\<bar> * 10 = of_int \<bar>round_half_even (x * 10)\<bar>"
    by (simp add: py_round1_def)
  then show ?thesis
    by (simp only: py_int_of_int)
qed

lemma floor_abs_round1: "\<lfloor>\<bar>py_round1 x\<bar> * 10\<rfloor> = \<bar>round_half_even (x * 10)\<bar>"
proof -
  have "\<bar>py_round1 x\<bar> * 10 = of_int \<bar>round_half_even (x * 10)\<bar>"
    by (simp add: py_round1_def)
  then show ?thesis
    by (simp only: floor_of_int)
qed

lemma py_int_round1: "py_int (py_round1 x * 10) = round_half_even (x * 10)"
  by (simp only: py_round1_times10 py_int_of_int)

lemma floor_round1: "\<lfloor>py_round1 x * 10\<rfloor> = round_half_even (x * 10)"
  by (simp only: py_round1_times10 floor_of_int)

lemma getitem_Inr_iff: "getitem xs i = Inr x \<longleftrightarrow> i < length xs \<and> x = xs ! i"
  by (auto simp: getitem_def)

lemma length_convert: "length (snd (convert_to_inhg u c ps)) = length ps"
  by (simp add: convert_to_inhg_def)

lemma determine_trend_cases:
  "determine_trend a b t \<in> {''Rising'', ''Falling'', ''Steady''}"
  by (simp add: determine_trend_def Let_def)

text \<open>For a threshold that is not negative the two tests exclude each other.\<close>

lemma determine_trend_nonneg:
  assumes "0 \<le> t"
  shows "determine_trend a b t = ''Rising'' \<longleftrightarrow> b - a > t"
    and "determine_trend a b t = ''Falling'' \<longleftrightarrow> b - a < - t"
    and "determine_trend a b t = ''Steady'' \<longleftrightarrow> \<bar>b - a\<bar> \<le> t"
  using assms by (auto simp: determine_trend_def Let_def)

text \<open>
  To inHg and on to mb: the product of the two factors is not 1, so the way there and
  back scales a value by 1.000000967 before it is rounded.
\<close>

lemma hPa_round_trip_factor: "HPA_TO_INHG * INHG_TO_MB = 1.000000967"
  by (simp add: HPA_TO_INHG_def INHG_TO_MB_def)

lemma kPa_round_trip_factor: "KPA_TO_INHG * INHG_TO_MB = 10.00000967"
  by (simp add: KPA_TO_INHG_def INHG_TO_MB_def)

lemma round_trip_hPa:
  "\<bar>py_round1 (c * HPA_TO_INHG * INHG_TO_MB) - c\<bar> \<le> 0.05 + 0.000001 * \<bar>c\<bar>"
proof -
  let ?y = "c * HPA_TO_INHG * INHG_TO_MB"
  have y: "?y = c + (967 / 1000000000) * c"
    using hPa_round_trip_factor by (simp add: algebra_simps)
  have "\<bar>?y - c\<bar> = (967 / 1000000000) * \<bar>c\<bar>"
    unfolding y by (simp add: abs_mult)
  moreover have "(967 / 1000000000) * \<bar>c\<bar> \<le> (1 / 1000000) * \<bar>c\<bar>"
    by (rule mult_right_mono) simp_all
  moreover have "\<bar>py_round1 ?y - ?y\<bar> \<le> 1 / 20"
    using py_round1_error [of ?y] by simp
  ultimately have "\<bar>py_round1 ?y - c\<bar> \<le> 1 / 20 + (1 / 1000000) * \<bar>c\<bar>"
    by linarith
  then show ?thesis
    by simp
qed

lemma round_trip_kPa:
  "\<bar>py_round1 (c * KPA_TO_INHG * INHG_TO_MB) / 10 - c\<bar> \<le> 0.005 + 0.000001 * \<bar>c\<bar>"
proof -
  let ?y = "c * KPA_TO_INHG * INHG_TO_MB"
  have y: "?y = 10 * c + (967 / 100000000) * c"
    using kPa_round_trip_factor by (simp add: algebra_simps)
  have "\<bar>?y / 10 - c\<bar> = (967 / 1000000000) * \<bar>c\<bar>"
    unfolding y by (simp add: abs_mult)
  moreover have "(967 / 1000000000) * \<bar>c\<bar> \<le> (1 / 1000000) * \<bar>c\<bar>"
    by (rule mult_right_mono) simp_all
  moreover have "\<bar>py_round1 ?y - ?y\<bar> \<le> 1 / 20"
    using py_round1_error [of ?y] by simp
  moreover have "\<bar>py_round1 ?y / 10 - c\<bar> \<le> \<bar>py_round1 ?y - ?y\<bar> / 10 + \<bar>?y / 10 - c\<bar>"
    by (simp add: abs_le_iff field_simps) linarith
  ultimately have "\<bar>py_round1 ?y / 10 - c\<bar> \<le> 1 / 200 + (1 / 1000000) * \<bar>c\<bar>"
    by linarith
  then show ?thesis
    by simp
qed

text \<open>The unit selector in the two places that test it, and the conversion of a prefix.\<close>

lemma convert_unrecognized:
  assumes "u \<notin> {''hPa'', ''kPa'', ''custom''}"
  shows "convert_to_inhg u c ps = (c, ps)"
  using assms by (simp add: convert_to_inhg_def)

lemma display_unrecognized:
  assumes "u \<notin> {''hPa'', ''kPa'', ''custom''}"
  shows "display_values u m d c = (c, d / INHG_TO_MB, ''inHg'')"
  using assms by (simp add: display_values_def)

lemma unit_label_of:
  "snd (snd (display_values u m d c)) =
     (if u = ''hPa'' then ''hPa'' else if u = ''kPa'' then ''kPa''
      else if u = ''custom'' then ''hPa (change), inHg (current)'' else ''inHg'')"
  by (simp add: display_values_def)

lemma convert_fst: "fst (convert_to_inhg u c ps) = fst (convert_to_inhg u c ps')"
  by (simp add: convert_to_inhg_def)

lemma convert_take:
  "snd (convert_to_inhg u c (take n ps)) = take n (snd (convert_to_inhg u c ps))"
  by (simp add: convert_to_inhg_def take_map)

lemma convert_nth_take:
  assumes "i < 3"
  shows "snd (convert_to_inhg u c ps) ! i = snd (convert_to_inhg u c (take 3 ps)) ! i"
  using assms by (simp add: convert_take)

text \<open>The two reductions keep to the three direction names and the nine symbols.\<close>

lemma first_period_trend_of_cases:
  assumes "a \<in> {''Rising'', ''Falling'', ''Steady''}" and "b \<in> {''Rising'', ''Falling'', ''Steady''}"
  shows "first_period_trend_of a b p q \<in> {''Rising'', ''Falling'', ''Steady''}"
  using assms determine_trend_cases [of p q default_threshold]
  by (auto simp: first_period_trend_of_def)

lemma tendency_symbol_of_table:
  "tendency_symbol_of ''Rising'' ''Falling'' = ''+/''"
  "tendency_symbol_of ''Falling'' ''Rising'' = ''-+''"
  "tendency_symbol_of ''Rising'' ''Steady'' = ''+=''"
  "tendency_symbol_of ''Falling'' ''Steady'' = ''-=''"
  "tendency_symbol_of ''Rising'' ''Rising'' = ''+''"
  "tendency_symbol_of ''Falling'' ''Falling'' = ''-''"
  "tendency_symbol_of ''Steady'' ''Rising'' = ''=+''"
  "tendency_symbol_of ''Steady'' ''Falling'' = ''=-''"
  "tendency_symbol_of ''Steady'' ''Steady'' = ''=''"
  by (simp_all add: tendency_symbol_of_def)

lemma tendency_symbol_of_cases:
  assumes "a \<in> {''Rising'', ''Falling'', ''Steady''}" and "b \<in> {''Rising'', ''Falling'', ''Steady''}"
  shows "tendency_symbol_of a b \<in>
           {''+/'', ''-+'', ''+='', ''-='', ''+'', ''-'', ''=+'', ''=-'', ''=''}"
  using assms by (auto simp: tendency_symbol_of_table)

lemma first_period_disagree:
  assumes "(a = ''Rising'' \<and> b = ''Falling'') \<or> (a = ''Falling'' \<and> b = ''Rising'')"
  shows "first_period_trend_of a b p q = determine_trend p q default_threshold"
  using assms by (auto simp: first_period_trend_of_def)

section \<open>The result record, field by field\<close>

lemma calc_short:
  "length ps < 3 \<Longrightarrow> calculate_pressure_trend c ps u = Inl IndexError"
  using length_convert [of u c ps]
  by (auto simp: calculate_pressure_trend_def getitem_def Let_def split: prod.splits sum.splits)

text \<open>On a list of at least three past pressures the function returns this record.\<close>

lemma calc_long:
  assumes "3 \<le> length ps" and "convert_to_inhg u c ps = (c', ps')"
  shows "calculate_pressure_trend c ps u =
    Inr \<lparr> current_pressure_display =
            fst (display_values u (py_round1 (c' * INHG_TO_MB))
                   (py_round1 (c' * INHG_TO_MB - ps' ! 2 * INHG_TO_MB)) c'),
          current_pressure_mb = py_round1 (c' * INHG_TO_MB),
          station_model_pressure = py_int (py_round1 (c' * INHG_TO_MB) * 10) mod 1000,
          pressure_change_display =
            fst (snd (display_values u (py_round1 (c' * INHG_TO_MB))
                   (py_round1 (c' * INHG_TO_MB - ps' ! 2 * INHG_TO_MB)) c')),
          pressure_change_mb = py_round1 (c' * INHG_TO_MB - ps' ! 2 * INHG_TO_MB),
          trend_value = py_int (\<bar>py_round1 (c' * INHG_TO_MB - ps' ! 2 * INHG_TO_MB)\<bar> * 10),
          overall_trend = overall_trend_of (py_round1 (c' * INHG_TO_MB - ps' ! 2 * INHG_TO_MB)),
          tendency_description =
            first_period_trend_of (determine_trend (ps' ! 2) (ps' ! 1) default_threshold)
                 (determine_trend (ps' ! 1) (ps' ! 0) default_threshold) (ps' ! 2) (ps' ! 0)
            @ '' then '' @ determine_trend (ps' ! 0) c' default_threshold,
          tendency_symbol =
            tendency_symbol_of
              (first_period_trend_of (determine_trend (ps' ! 2) (ps' ! 1) default_threshold)
                 (determine_trend (ps' ! 1) (ps' ! 0) default_threshold) (ps' ! 2) (ps' ! 0))
              (determine_trend (ps' ! 0) c' default_threshold),
          unit = u,
          unit_label =
            snd (snd (display_values u (py_round1 (c' * INHG_TO_MB))
                   (py_round1 (c' * INHG_TO_MB - ps' ! 2 * INHG_TO_MB)) c')) \<rparr>"
proof -
  have "length ps' = length ps"
    using length_convert [of u c ps] assms(2) by simp
  with assms(1) have len: "0 < length ps'" "1 < length ps'" "2 < length ps'"
    by linarith+
  show ?thesis
    using len assms(2)
    by (auto simp: calculate_pressure_trend_def getitem_def Let_def split: prod.splits)
qed

text \<open>Only the first three past pressures are read.\<close>

lemma calc_take:
  assumes "3 \<le> length ps"
  shows "calculate_pressure_trend c ps u = calculate_pressure_trend c (take 3 ps) u"
proof -
  have len: "3 \<le> length (take 3 ps)"
    using assms by simp
  have c1: "convert_to_inhg u c ps =
      (fst (convert_to_inhg u c ps), snd (convert_to_inhg u c ps))"
    by simp
  have c2: "convert_to_inhg u c (take 3 ps) =
      (fst (convert_to_inhg u c ps), snd (convert_to_inhg u c (take 3 ps)))"
    using convert_fst [of u c "take 3 ps" ps] by (simp add: prod_eq_iff)
  have n: "snd (convert_to_inhg u c ps) ! 0 = snd (convert_to_inhg u c (take 3 ps)) ! 0"
      "snd (convert_to_inhg u c ps) ! 1 = snd (convert_to_inhg u c (take 3 ps)) ! 1"
      "snd (convert_to_inhg u c ps) ! 2 = snd (convert_to_inhg u c (take 3 ps)) ! 2"
    by (rule convert_nth_take, simp)+
  show ?thesis
    unfolding calc_long [OF assms c1] calc_long [OF len c2] n ..
qed

section \<open>Concrete runs\<close>

text \<open>The definitions that a run on concrete numbers unfolds.\<close>

lemmas eval_defs = calculate_pressure_trend_def convert_to_inhg_def getitem_def display_values_def
      Let_def py_round1_def round_half_even_def py_int_def INHG_TO_MB_def HPA_TO_INHG_def
      KPA_TO_INHG_def overall_trend_of_def determine_trend_def default_threshold_def
      first_period_trend_of_def tendency_symbol_of_def

text \<open>
  The two scenarios of the specification, then a rise of 0.005 inHg (below the segment
  threshold) and a rise followed by a larger fall.
\<close>

lemma scenario_hPa:
  "calculate_pressure_trend 1013.2 [1012.0, 1010.5, 1009.0] ''hPa'' =
     Inr \<lparr> current_pressure_display = 1013.2, current_pressure_mb = 1013.2,
           station_model_pressure = 132, pressure_change_display = 4.2,
           pressure_change_mb = 4.2, trend_value = 42, overall_trend = ''Rising'',
           tendency_description = ''Rising then Rising'', tendency_symbol = ''+'',
           unit = ''hPa'', unit_label = ''hPa'' \<rparr>"
  by (simp add: eval_defs)

lemma scenario_steady:
  "calculate_pressure_trend 29.92 [29.92, 29.92, 29.92] ''inHg'' =
     Inr \<lparr> current_pressure_display = 29.92, current_pressure_mb = 1013.2,
           station_model_pressure = 132, pressure_change_display = 0,
           pressure_change_mb = 0, trend_value = 0, overall_trend = ''Steady'',
           tendency_description = ''Steady then Steady'', tendency_symbol = ''='',
           unit = ''inHg'', unit_label = ''inHg'' \<rparr>"
  by (simp add: eval_defs)

lemma scenario_small_rise:
  "calculate_pressure_trend 29.925 [29.92, 29.92, 29.92] ''inHg'' =
     Inr \<lparr> current_pressure_display = 29.925, current_pressure_mb = 1013.4,
           station_model_pressure = 134, pressure_change_display = 0.2 / 33.8639,
           pressure_change_mb = 0.2, trend_value = 2, overall_trend = ''Rising'',
           tendency_description = ''Steady then Steady'', tendency_symbol = ''='',
           unit = ''inHg'', unit_label = ''inHg'' \<rparr>"
  by (simp add: eval_defs)

lemma scenario_disagree:
  "calculate_pressure_trend 29.80 [29.80, 30.00, 29.90] ''inHg'' =
     Inr \<lparr> current_pressure_display = 29.80, current_pressure_mb = 1009.1,
           station_model_pressure = 91, pressure_change_display = - 3.4 / 33.8639,
           pressure_change_mb = - 3.4, trend_value = 34, overall_trend = ''Falling'',
           tendency_description = ''Falling then Steady'', tendency_symbol = ''-='',
           unit = ''inHg'', unit_label = ''inHg'' \<rparr>"
  by (simp add: eval_defs)

text \<open>
  A current pressure whose way to inHg and on to mb crosses a rounding boundary: the
  product is 1013.25088 mb for 1013.2499 hPa and for 101.32499 kPa.
\<close>

lemma scenario_round_up:
  "map_sum id current_pressure_display
     (calculate_pressure_trend 1013.2499 [1012.0, 1010.5, 1009.0] ''hPa'') = Inr 1013.3"
  "map_sum id current_pressure_display
     (calculate_pressure_trend 101.32499 [101.20, 101.05, 100.90] ''kPa'') = Inr 101.33"
  by (simp_all add: eval_defs)

section \<open>The classifier\<close>

text \<open>
  Claim C1. For all pressures \<open>p_before\<close>, \<open>p_after\<close> and every threshold \<open>t\<close>, the
  classifier returns Rising when \<open>p_after - p_before > t\<close>, Falling when
  \<open>p_after - p_before < - t\<close>, and Steady otherwise, the tests read in this order. It is a
  total function: the result is always one of the three names, there is no error value.
  For a threshold \<open>t \<ge> 0\<close> and any \<open>e > 0\<close>, a step of \<open>t + e\<close> upwards is Rising, a step
  of \<open>t + e\<close> downwards is Falling and no step is Steady.
\<close>

theorem determine_trend_spec:
  "determine_trend p_before p_after t =
     (if p_after - p_before > t then ''Rising''
      else if p_after - p_before < - t then ''Falling''
      else ''Steady'')
   \<and> determine_trend p_before p_after t \<in> {''Rising'', ''Falling'', ''Steady''}
   \<and> (0 \<le> t \<and> 0 < e \<longrightarrow>
        determine_trend x (x + t + e) t = ''Rising'' \<and>
        determine_trend x (x - t - e) t = ''Falling'' \<and>
        determine_trend x x t = ''Steady'')"
  by (simp add: determine_trend_def Let_def)

theorem determine_trend_spec_witness:
  "(0 :: real) \<le> 0.01 \<and> (0 :: real) < 0.001 \<and>
   determine_trend 29.92 (29.92 + 0.01 + 0.001) 0.01 = ''Rising'' \<and>
   determine_trend 29.92 (29.92 - 0.01 - 0.001) 0.01 = ''Falling'' \<and>
   determine_trend 29.92 29.92 0.01 = ''Steady''"
  using determine_trend_spec [of 0 0 "0.01" "0.001" "29.92"]
  by simp

section \<open>The fields of the result\<close>

text \<open>
  Claim C2. For every input with at least three past pressures the function returns a
  record whose \<open>overall_trend\<close> is the sign of its \<open>pressure_change_mb\<close>, with threshold
  zero: Rising above 0, Falling below 0, Steady at exactly 0.
\<close>

theorem overall_trend_sign:
  assumes "3 \<le> length ps"
  shows "\<exists>r. calculate_pressure_trend c ps u = Inr r \<and>
           (pressure_change_mb r > 0 \<longrightarrow> overall_trend r = ''Rising'') \<and>
           (pressure_change_mb r < 0 \<longrightarrow> overall_trend r = ''Falling'') \<and>
           (pressure_change_mb r = 0 \<longrightarrow> overall_trend r = ''Steady'')"
proof -
  obtain c' ps' where conv: "convert_to_inhg u c ps = (c', ps')"
    by (cases "convert_to_inhg u c ps") auto
  show ?thesis
    by (simp add: calc_long [OF assms conv] overall_trend_of_def)
qed

theorem overall_trend_sign_witness:
  "3 \<le> length [29.92, 29.92, 29.92 :: real] \<and>
   (\<exists>r. calculate_pressure_trend 29.925 [29.92, 29.92, 29.92] ''inHg'' = Inr r \<and>
        pressure_change_mb r = 0.2 \<and> overall_trend r = ''Rising'' \<and>
        tendency_description r = ''Steady then Steady'')"
  using overall_trend_sign [of "[29.92, 29.92, 29.92]" "29.925" "''inHg''"]
  unfolding scenario_small_rise by simp


text \<open>
  In the witness the change of 0.2 mb is 0.005 inHg: below the threshold 0.01 of the
  segments, which are all Steady, while the overall trend is Rising.
\<close>

text \<open>
  Claim C3. For every input with at least three past pressures the function returns a
  record whose \<open>pressure_change_mb\<close> is the 3-hour change in mb rounded to one decimal
  place and whose \<open>trend_value\<close> is a non-negative integer equal to the floor of ten times
  the absolute value of that field. The floor discards nothing: the product is an integer.
\<close>

theorem trend_value_floor:
  assumes "3 \<le> length ps"
  shows "\<exists>r. calculate_pressure_trend c ps u = Inr r \<and>
           pressure_change_mb r =
             py_round1 (fst (convert_to_inhg u c ps) * INHG_TO_MB
                        - snd (convert_to_inhg u c ps) ! 2 * INHG_TO_MB) \<and>
           0 \<le> trend_value r \<and>
           trend_value r = \<lfloor>\<bar>pressure_change_mb r\<bar> * 10\<rfloor> \<and>
           of_int (trend_value r) = \<bar>pressure_change_mb r\<bar> * 10"
proof -
  obtain c' ps' where conv: "convert_to_inhg u c ps = (c', ps')"
    by (cases "convert_to_inhg u c ps") auto
  show ?thesis
    by (simp add: calc_long [OF assms conv] conv py_int_abs_round1 floor_abs_round1)
       (simp add: py_round1_def)
qed

theorem trend_value_floor_witness:
  "3 \<le> length [1012.0, 1010.5, 1009.0 :: real] \<and>
   (\<exists>r. calculate_pressure_trend 1013.2 [1012.0, 1010.5, 1009.0] ''hPa'' = Inr r \<and>
        pressure_change_mb r = 4.2 \<and> trend_value r = 42)"
  using trend_value_floor [of "[1012.0, 1010.5, 1009.0]" "1013.2" "''hPa''"]
  unfolding scenario_hPa by simp

text \<open>
  Claim C4. For every input with at least three past pressures the function returns a
  record whose \<open>current_pressure_mb\<close> is the current pressure in mb rounded to one decimal
  place and whose \<open>station_model_pressure\<close> is the floor of ten times that field, modulo
  1000; it lies between 0 and 999.
\<close>

theorem station_model_pressure_code:
  assumes "3 \<le> length ps"
  shows "\<exists>r. calculate_pressure_trend c ps u = Inr r \<and>
           current_pressure_mb r = py_round1 (fst (convert_to_inhg u c ps) * INHG_TO_MB) \<and>
           station_model_pressure r = \<lfloor>current_pressure_mb r * 10\<rfloor> mod 1000 \<and>
           0 \<le> station_model_pressure r \<and> station_model_pressure r \<le> 999"
proof -
  obtain c' ps' where conv: "convert_to_inhg u c ps = (c', ps')"
    by (cases "convert_to_inhg u c ps") auto
  show ?thesis
    by (simp add: calc_long [OF assms conv] conv py_int_round1 floor_round1)
qed

theorem station_model_pressure_code_witness:
  "3 \<le> length [1012.0, 1010.5, 1009.0 :: real] \<and>
   (\<exists>r. calculate_pressure_trend 1013.2 [1012.0, 1010.5, 1009.0] ''hPa'' = Inr r \<and>
        current_pressure_mb r = 1013.2 \<and> station_model_pressure r = 132)"
  using station_model_pressure_code [of "[1012.0, 1010.5, 1009.0]" "1013.2" "''hPa''"]
  unfolding scenario_hPa by simp

section \<open>The two periods and the symbol\<close>

text \<open>
  Claim C5. Whenever the segment from 3h to 2h and the segment from 2h to 1h classify to
  opposite directions (one Rising, one Falling), the first period of the result is the
  classification of the step from the 3-hours-ago value directly to the 1-hour-ago value,
  in inHg with the default threshold 0.01. In particular, when that net change is below
  -0.01 inHg the first period is Falling, also when the segment from 3h to 2h was Rising.
  The first period is read off the fields \<open>tendency_description\<close> and \<open>tendency_symbol\<close>.
\<close>

theorem first_period_reclassified:
  assumes "3 \<le> length ps"
    and "convert_to_inhg u c ps = (c', ps')"
    and "(determine_trend (ps' ! 2) (ps' ! 1) default_threshold = ''Rising'' \<and>
          determine_trend (ps' ! 1) (ps' ! 0) default_threshold = ''Falling'') \<or>
         (determine_trend (ps' ! 2) (ps' ! 1) default_threshold = ''Falling'' \<and>
          determine_trend (ps' ! 1) (ps' ! 0) default_threshold = ''Rising'')"
  shows "\<exists>r. calculate_pressure_trend c ps u = Inr r \<and>
           tendency_description r =
             determine_trend (ps' ! 2) (ps' ! 0) 0.01 @ '' then '' @
             determine_trend (ps' ! 0) c' 0.01 \<and>
           tendency_symbol r =
             tendency_symbol_of (determine_trend (ps' ! 2) (ps' ! 0) 0.01)
               (determine_trend (ps' ! 0) c' 0.01) \<and>
           (ps' ! 0 - ps' ! 2 < - 0.01 \<longrightarrow>
              tendency_description r = ''Falling then '' @ determine_trend (ps' ! 0) c' 0.01)"
proof -
  have fp: "first_period_trend_of (determine_trend (ps' ! 2) (ps' ! 1) default_threshold)
              (determine_trend (ps' ! 1) (ps' ! 0) default_threshold) (ps' ! 2) (ps' ! 0) =
            determine_trend (ps' ! 2) (ps' ! 0) default_threshold"
    by (rule first_period_disagree) (rule assms(3))
  have falling: "determine_trend (ps' ! 2) (ps' ! 0) default_threshold = ''Falling''"
    if "ps' ! 0 - ps' ! 2 < - 0.01"
    using that by (simp add: determine_trend_def default_threshold_def)
  have dt: "default_threshold = 0.01"
    by (simp add: default_threshold_def)
  show ?thesis
    unfolding calc_long [OF assms(1,2)] fp
    using falling by (auto simp: dt)
qed

theorem first_period_reclassified_witness:
  "3 \<le> length [29.80, 30.00, 29.90 :: real] \<and>
   convert_to_inhg ''inHg'' 29.80 [29.80, 30.00, 29.90] = (29.80, [29.80, 30.00, 29.90]) \<and>
   determine_trend 29.90 30.00 default_threshold = ''Rising'' \<and>
   determine_trend 30.00 29.80 default_threshold = ''Falling'' \<and>
   (29.80 :: real) - 29.90 < - 0.01 \<and>
   (\<exists>r. calculate_pressure_trend 29.80 [29.80, 30.00, 29.90] ''inHg'' = Inr r \<and>
        tendency_description r = ''Falling then Steady'' \<and> tendency_symbol r = ''-='')"
proof -
  have conv: "convert_to_inhg ''inHg'' 29.80 [29.80, 30.00, 29.90] = (29.80, [29.80, 30.00, 29.90])"
    by (simp add: convert_to_inhg_def)
  have up: "determine_trend 29.90 30.00 default_threshold = ''Rising''"
    and down: "determine_trend 30.00 29.80 default_threshold = ''Falling''"
    by (simp_all add: determine_trend_def default_threshold_def)
  have "\<exists>r. calculate_pressure_trend 29.80 [29.80, 30.00, 29.90] ''inHg'' = Inr r \<and>
        tendency_description r = ''Falling then Steady'' \<and> tendency_symbol r = ''-=''"
    using first_period_reclassified [of "[29.80, 30.00, 29.90]" "''inHg''" "29.80" "29.80"
        "[29.80, 30.00, 29.90]"] conv up down
    unfolding scenario_disagree by simp
  with conv up down show ?thesis by simp
qed

text \<open>
  Claim C6. The symbol mapping assigns to each of the nine pairs of directions the symbol
  of the table, and the \<open>tendency_symbol\<close> of every result is one of these nine strings,
  never the empty string the variable starts with.
\<close>

theorem tendency_symbol_total:
  "tendency_symbol_of ''Rising'' ''Falling'' = ''+/'' \<and>
   tendency_symbol_of ''Falling'' ''Rising'' = ''-+'' \<and>
   tendency_symbol_of ''Rising'' ''Steady'' = ''+='' \<and>
   tendency_symbol_of ''Falling'' ''Steady'' = ''-='' \<and>
   tendency_symbol_of ''Rising'' ''Rising'' = ''+'' \<and>
   tendency_symbol_of ''Falling'' ''Falling'' = ''-'' \<and>
   tendency_symbol_of ''Steady'' ''Rising'' = ''=+'' \<and>
   tendency_symbol_of ''Steady'' ''Falling'' = ''=-'' \<and>
   tendency_symbol_of ''Steady'' ''Steady'' = ''='' \<and>
   (3 \<le> length ps \<longrightarrow>
      (\<exists>r. calculate_pressure_trend c ps u = Inr r \<and>
           tendency_symbol r \<in>
             {''+/'', ''-+'', ''+='', ''-='', ''+'', ''-'', ''=+'', ''=-'', ''=''} \<and>
           tendency_symbol r \<noteq> ''''))"
proof -
  have "\<exists>r. calculate_pressure_trend c ps u = Inr r \<and>
           tendency_symbol r \<in>
             {''+/'', ''-+'', ''+='', ''-='', ''+'', ''-'', ''=+'', ''=-'', ''=''} \<and>
           tendency_symbol r \<noteq> ''''" if len: "3 \<le> length ps"
  proof -
    obtain c' ps' where conv: "convert_to_inhg u c ps = (c', ps')"
      by (cases "convert_to_inhg u c ps") auto
    let ?f = "first_period_trend_of (determine_trend (ps' ! 2) (ps' ! 1) default_threshold)
                (determine_trend (ps' ! 1) (ps' ! 0) default_threshold) (ps' ! 2) (ps' ! 0)"
    let ?s = "determine_trend (ps' ! 0) c' default_threshold"
    have "?f \<in> {''Rising'', ''Falling'', ''Steady''}"
      by (rule first_period_trend_of_cases) (rule determine_trend_cases)+
    moreover have "?s \<in> {''Rising'', ''Falling'', ''Steady''}"
      by (rule determine_trend_cases)
    ultimately have mem: "tendency_symbol_of ?f ?s \<in>
        {''+/'', ''-+'', ''+='', ''-='', ''+'', ''-'', ''=+'', ''=-'', ''=''}"
      by (rule tendency_symbol_of_cases)
    then have "tendency_symbol_of ?f ?s \<noteq> ''''"
      by auto
    with mem show ?thesis
      unfolding calc_long [OF len conv] by simp
  qed
  then show ?thesis
    by (simp add: tendency_symbol_of_table)
qed

theorem tendency_symbol_total_witness:
  "3 \<le> length [29.80, 30.00, 29.90 :: real] \<and>
   (\<exists>r. calculate_pressure_trend 29.80 [29.80, 30.00, 29.90] ''inHg'' = Inr r \<and>
        tendency_symbol r = ''-='' \<and> tendency_symbol r \<noteq> '''')"
  using tendency_symbol_total [of "[29.80, 30.00, 29.90]" "29.80" "''inHg''"]
  unfolding scenario_disagree by simp

section \<open>The unit selector\<close>

text \<open>
  Claim C7. For every unit selector other than "hPa", "kPa" and "custom" the function takes
  the inHg branch: the inputs pass through unchanged as inHg, the displayed current
  pressure is the input, the displayed change is \<open>pressure_change_mb / INHG_TO_MB\<close> and the
  label is "inHg". The selector is not rejected: the call returns what the call with
  "inHg" returns, up to the \<open>unit\<close> field.
\<close>

theorem unrecognized_unit_falls_back:
  assumes "u \<notin> {''hPa'', ''kPa'', ''custom''}" and "3 \<le> length ps"
  shows "convert_to_inhg u c ps = (c, ps) \<and>
         (\<exists>r. calculate_pressure_trend c ps u = Inr r \<and>
              current_pressure_display r = c \<and>
              current_pressure_mb r = py_round1 (c * INHG_TO_MB) \<and>
              pressure_change_mb r = py_round1 (c * INHG_TO_MB - ps ! 2 * INHG_TO_MB) \<and>
              pressure_change_display r = pressure_change_mb r / INHG_TO_MB \<and>
              unit_label r = ''inHg'' \<and>
              calculate_pressure_trend c ps ''inHg'' = Inr (r\<lparr>unit := ''inHg''\<rparr>))"
proof -
  have conv: "convert_to_inhg u c ps = (c, ps)"
    by (rule convert_unrecognized) (rule assms(1))
  have conv': "convert_to_inhg ''inHg'' c ps = (c, ps)"
    by (rule convert_unrecognized) simp
  have disp': "display_values ''inHg'' m d x = (x, d / INHG_TO_MB, ''inHg'')" for m d x
    by (rule display_unrecognized) simp
  show ?thesis
    unfolding calc_long [OF assms(2) conv] calc_long [OF assms(2) conv']
    by (simp add: conv display_unrecognized [OF assms(1)] disp')
qed

theorem unrecognized_unit_falls_back_witness:
  "''mmHg'' \<notin> {''hPa'', ''kPa'', ''custom''} \<and> 3 \<le> length [29.92, 29.92, 29.92 :: real] \<and>
   (\<exists>r. calculate_pressure_trend 29.925 [29.92, 29.92, 29.92] ''mmHg'' = Inr r \<and>
        current_pressure_display r = 29.925 \<and> unit_label r = ''inHg'' \<and>
        calculate_pressure_trend 29.925 [29.92, 29.92, 29.92] ''inHg'' = Inr (r\<lparr>unit := ''inHg''\<rparr>))"
  using unrecognized_unit_falls_back [of "''mmHg''" "[29.92, 29.92, 29.92]" "29.925"]
  by auto

text \<open>
  Claim C9. For every call that returns, with a recognised unit or not, the \<open>unit\<close> field
  of the record is the unit argument itself and \<open>unit_label\<close> is the label of the branch
  taken; with an unrecognised unit the record carries that string next to the label "inHg".
\<close>

theorem unit_field_verbatim:
  assumes "3 \<le> length ps"
  shows "\<exists>r. calculate_pressure_trend c ps u = Inr r \<and> unit r = u \<and>
           unit_label r =
             (if u = ''hPa'' then ''hPa'' else if u = ''kPa'' then ''kPa''
              else if u = ''custom'' then ''hPa (change), inHg (current)'' else ''inHg'')"
proof -
  obtain c' ps' where conv: "convert_to_inhg u c ps = (c', ps')"
    by (cases "convert_to_inhg u c ps") auto
  show ?thesis
    unfolding calc_long [OF assms conv] by (simp add: unit_label_of)
qed

theorem unit_field_verbatim_witness:
  "3 \<le> length [29.92, 29.92, 29.92 :: real] \<and>
   (\<exists>r. calculate_pressure_trend 29.925 [29.92, 29.92, 29.92] ''mmHg'' = Inr r \<and>
        unit r = ''mmHg'' \<and> unit_label r = ''inHg'')"
  using unit_field_verbatim [of "[29.92, 29.92, 29.92]" "29.925" "''mmHg''"]
  by auto

section \<open>Past pressures beyond the third\<close>

text \<open>
  Claim C10. Two calls with the same current pressure and unit, whose lists of past
  pressures have at least three elements and agree on the first three, return the same
  record: the elements beyond index 2 influence nothing, and a longer list is no error.
\<close>

theorem past_beyond_three_ignored:
  assumes "3 \<le> length ps" and "3 \<le> length ps'" and "take 3 ps = take 3 ps'"
  shows "calculate_pressure_trend c ps u = calculate_pressure_trend c ps' u \<and>
         (\<exists>r. calculate_pressure_trend c ps u = Inr r)"
proof -
  have "calculate_pressure_trend c ps u = calculate_pressure_trend c (take 3 ps) u"
    by (rule calc_take) (rule assms(1))
  also have "\<dots> = calculate_pressure_trend c (take 3 ps') u"
    by (simp only: assms(3))
  also have "\<dots> = calculate_pressure_trend c ps' u"
    by (rule calc_take [symmetric]) (rule assms(2))
  finally have eq: "calculate_pressure_trend c ps u = calculate_pressure_trend c ps' u" .
  obtain c' qs where conv: "convert_to_inhg u c ps = (c', qs)"
    by (cases "convert_to_inhg u c ps") auto
  have "\<exists>r. calculate_pressure_trend c ps u = Inr r"
    unfolding calc_long [OF assms(1) conv] by blast
  with eq show ?thesis by simp
qed

theorem past_beyond_three_ignored_witness:
  "3 \<le> length [1012.0, 1010.5, 1009.0 :: real] \<and>
   3 \<le> length [1012.0, 1010.5, 1009.0, 0, - 5 :: real] \<and>
   take 3 [1012.0, 1010.5, 1009.0 :: real] = take 3 [1012.0, 1010.5, 1009.0, 0, - 5] \<and>
   calculate_pressure_trend 1013.2 [1012.0, 1010.5, 1009.0] ''hPa'' =
     calculate_pressure_trend 1013.2 [1012.0, 1010.5, 1009.0, 0, - 5] ''hPa'' \<and>
   (\<exists>r. calculate_pressure_trend 1013.2 [1012.0, 1010.5, 1009.0, 0, - 5] ''hPa'' = Inr r \<and>
        station_model_pressure r = 132)"
proof -
  have t: "take 3 [1012.0, 1010.5, 1009.0 :: real] = take 3 [1012.0, 1010.5, 1009.0, 0, - 5]"
    by simp
  have "calculate_pressure_trend 1013.2 [1012.0, 1010.5, 1009.0] ''hPa'' =
     calculate_pressure_trend 1013.2 [1012.0, 1010.5, 1009.0, 0, - 5] ''hPa''"
    using past_beyond_three_ignored [OF _ _ t, of "1013.2" "''hPa''"] by simp
  then show ?thesis
    unfolding scenario_hPa by (simp add: eq_commute)
qed

section \<open>Unit round trip\<close>

text \<open>
  Claim C8 says that in each single-unit mode converting a pressure to inHg and back to
  its unit by the display formulas reproduces it within 0.05 mb (hPa), 0.005 kPa (kPa)
  and 0.0005 inHg (inHg). As stated this fails: 1013.2499 hPa is displayed as 1013.3 hPa
  and 101.32499 kPa as 101.33 kPa, off by 0.0501 mb and 0.00501 kPa.
\<close>

theorem round_trip_tolerance_counterexample:
  "map_sum id current_pressure_display
     (calculate_pressure_trend 1013.2499 [1012.0, 1010.5, 1009.0] ''hPa'') = Inr 1013.3 \<and>
   \<not> \<bar>1013.3 - 1013.2499\<bar> \<le> (0.05 :: real) \<and>
   map_sum id current_pressure_display
     (calculate_pressure_trend 101.32499 [101.20, 101.05, 100.90] ''kPa'') = Inr 101.33 \<and>
   \<not> \<bar>101.33 - 101.32499\<bar> \<le> (0.005 :: real)"
  by (simp add: eval_defs)

text \<open>
  Claim C8, amended. For every input with at least three past pressures the displayed
  current pressure differs from the current pressure \<open>c\<close> given by at most
  \<open>0.05 + 0.000001 * \<bar>c\<bar>\<close> mb in hPa mode (the rounding step plus one millionth of the
  value) and by at most \<open>0.005 + 0.000001 * \<bar>c\<bar>\<close> kPa in kPa mode; in inHg mode it is
  \<open>c\<close> itself.

  The way there and back scales the value by 1.000000967. The bound takes one millionth
  instead: the remaining \<open>0.000000033 * \<bar>c\<bar>\<close> is room for the rounding of the two float
  products, which the model does not have and which can move a value across a rounding
  boundary (the program displays 900.3491293623919 hPa as 900.4, the model as 900.3).
\<close>

theorem round_trip_bound:
  assumes "3 \<le> length ps"
  shows "\<exists>r. calculate_pressure_trend c ps u = Inr r \<and>
           (u = ''hPa'' \<longrightarrow>
              \<bar>current_pressure_display r - c\<bar> \<le> 0.05 + 0.000001 * \<bar>c\<bar>) \<and>
           (u = ''kPa'' \<longrightarrow>
              \<bar>current_pressure_display r - c\<bar> \<le> 0.005 + 0.000001 * \<bar>c\<bar>) \<and>
           (u = ''inHg'' \<longrightarrow> current_pressure_display r = c)"
proof -
  obtain c' ps' where conv: "convert_to_inhg u c ps = (c', ps')"
    by (cases "convert_to_inhg u c ps") auto
  have hPa: "c' = c * HPA_TO_INHG" if "u = ''hPa''"
    using conv that by (simp add: convert_to_inhg_def)
  have kPa: "c' = c * KPA_TO_INHG" if "u = ''kPa''"
    using conv that by (simp add: convert_to_inhg_def)
  have inHg: "c' = c" if "u = ''inHg''"
    using conv that by (simp add: convert_to_inhg_def)
  show ?thesis
    unfolding calc_long [OF assms conv]
    using round_trip_hPa [of c] round_trip_kPa [of c]
    by (auto simp: display_values_def hPa kPa inHg)
qed

theorem round_trip_bound_witness:
  "3 \<le> length [1012.0, 1010.5, 1009.0 :: real] \<and>
   (\<exists>r. calculate_pressure_trend 1013.2499 [1012.0, 1010.5, 1009.0] ''hPa'' = Inr r \<and>
        current_pressure_display r = 1013.3 \<and>
        \<bar>current_pressure_display r - 1013.2499\<bar> \<le> 0.05 + 0.000001 * \<bar>1013.2499\<bar>)"
proof -
  obtain r where r: "calculate_pressure_trend 1013.2499 [1012.0, 1010.5, 1009.0] ''hPa'' = Inr r"
    and b: "\<bar>current_pressure_display r - 1013.2499\<bar> \<le> 0.05 + 0.000001 * \<bar>1013.2499\<bar>"
    using round_trip_bound [of "[1012.0, 1010.5, 1009.0]" "1013.2499" "''hPa''"] by auto
  have "current_pressure_display r = 1013.3"
    using scenario_round_up(1) unfolding r by simp
  with r b show ?thesis
    by simp
qed

end
